theory Spec2Isabelle
  imports Main "HOL-Library.Word"
begin

unbundle bit_operations_syntax

section \<open>Kernel types and facilities used by the engines\<close>

text \<open>
  \<^verbatim>\<open>u8\<close> is an 8-bit word, \<^verbatim>\<open>unsigned int\<close> a 32-bit word. \<^verbatim>\<open>ktime_t\<close> is a signed
  64-bit count of nanoseconds; it is modelled as \<open>int\<close>, and lemma \<open>skew_product_fits_s64\<close>
  below shows that the one multiplication the driver performs on it stays inside 64 bits.
  C \<^verbatim>\<open>int\<close> fields (\<^verbatim>\<open>bit_index\<close>, \<^verbatim>\<open>debug_toggle\<close>, a sampled line level) are \<open>int\<close>: the code
  only increments \<^verbatim>\<open>bit_index\<close> below 8 and only flips the low bit of \<^verbatim>\<open>debug_toggle\<close>.
\<close>

type_synonym u8 = "8 word"
type_synonym u32 = "32 word"
type_synonym ktime_t = int

subsection \<open>kfifo\<close>

text \<open>
  Modelled from the spec: the byte queue (\<^verbatim>\<open>struct kfifo\<close> of the host kernel, not part of
  the repository) is a fixed-capacity FIFO of bytes. It is the list of queued bytes, oldest
  first, together with its capacity. \<^verbatim>\<open>kfifo_put\<close> and \<^verbatim>\<open>kfifo_in\<close> never store more than
  the free capacity, \<^verbatim>\<open>kfifo_get\<close> and \<^verbatim>\<open>kfifo_out\<close> remove from the front. The kernel
  rounds a requested size up to a power of two; the driver asks for 32 and 1024, which are.
\<close>

record kfifo =
  kf_data :: "u8 list"
  kf_size :: nat

definition kfifo_alloc :: "nat \<Rightarrow> kfifo" where
  "kfifo_alloc sz = \<lparr>kf_data = [], kf_size = sz\<rparr>"

definition kfifo_len :: "kfifo \<Rightarrow> nat" where
  "kfifo_len f = length (kf_data f)"

definition kfifo_avail :: "kfifo \<Rightarrow> nat" where
  "kfifo_avail f = kf_size f - kfifo_len f"

definition kfifo_is_empty :: "kfifo \<Rightarrow> bool" where
  "kfifo_is_empty f = (kfifo_len f = 0)"

definition kfifo_is_full :: "kfifo \<Rightarrow> bool" where
  "kfifo_is_full f = (kfifo_len f \<ge> kf_size f)"

text \<open>\<^verbatim>\<open>kfifo_put\<close>: returns 0 and stores nothing when the queue is full, else 1.\<close>

definition kfifo_put :: "kfifo \<Rightarrow> u8 \<Rightarrow> nat \<times> kfifo" where
  "kfifo_put f v =
     (if kfifo_is_full f then (0, f) else (1, f\<lparr>kf_data := kf_data f @ [v]\<rparr>))"

text \<open>\<^verbatim>\<open>kfifo_get\<close>: \<open>None\<close> (C: returns 0, destination untouched) when the queue is empty.\<close>

definition kfifo_get :: "kfifo \<Rightarrow> (u8 \<times> kfifo) option" where
  "kfifo_get f =
     (case kf_data f of [] \<Rightarrow> None | v # rest \<Rightarrow> Some (v, f\<lparr>kf_data := rest\<rparr>))"

text \<open>\<^verbatim>\<open>kfifo_in\<close>: copies as many bytes as fit and returns their number.\<close>

definition kfifo_in :: "kfifo \<Rightarrow> u8 list \<Rightarrow> nat \<times> kfifo" where
  "kfifo_in f buf =
     (let n = min (length buf) (kfifo_avail f)
      in (n, f\<lparr>kf_data := kf_data f @ take n buf\<rparr>))"

text \<open>\<^verbatim>\<open>kfifo_out\<close>: removes at most \<open>n\<close> bytes from the front and returns them.\<close>

definition kfifo_out :: "kfifo \<Rightarrow> nat \<Rightarrow> u8 list \<times> kfifo" where
  "kfifo_out f n =
     (let k = min n (kfifo_len f)
      in (take k (kf_data f), f\<lparr>kf_data := drop k (kf_data f)\<rparr>))"

subsection \<open>hrtimer\<close>

text \<open>
  Modelled from the spec: the hard timer facility (\<^verbatim>\<open>struct hrtimer\<close> of the host kernel,
  not part of the repository). A timer has an absolute deadline and is active from
  \<^verbatim>\<open>hrtimer_start\<close> until a callback returns \<^verbatim>\<open>HRTIMER_NORESTART\<close>. The spec's
  \<^verbatim>\<open>rearm_forward(period)\<close> "advances deadline by exactly one period from its last
  deadline, not from now"; that is \<open>hrtimer_forward_now\<close> here. A callback fires at its
  deadline.
\<close>

record hrtimer =
  hr_expires :: ktime_t
  hr_active :: bool

datatype hrtimer_restart = HRTIMER_NORESTART | HRTIMER_RESTART

definition hrtimer_active :: "hrtimer \<Rightarrow> bool" where
  "hrtimer_active t = hr_active t"

definition hrtimer_start :: "hrtimer \<Rightarrow> ktime_t \<Rightarrow> hrtimer" where
  "hrtimer_start t tim = t\<lparr>hr_expires := tim, hr_active := True\<rparr>"

definition hrtimer_forward_now :: "hrtimer \<Rightarrow> ktime_t \<Rightarrow> hrtimer" where
  "hrtimer_forward_now t interval = t\<lparr>hr_expires := hr_expires t + interval\<rparr>"

definition hrtimer_setup :: hrtimer where
  "hrtimer_setup = \<lparr>hr_expires = 0, hr_active = False\<rparr>"

text \<open>What the timer core does with a callback's return value.\<close>

definition hrtimer_done :: "hrtimer_restart \<Rightarrow> hrtimer \<Rightarrow> hrtimer" where
  "hrtimer_done ret t =
     (case ret of
        HRTIMER_NORESTART \<Rightarrow> t\<lparr>hr_active := False\<rparr>
      | HRTIMER_RESTART \<Rightarrow> t\<lparr>hr_active := True\<rparr>)"

section \<open>Data model (unart.h)\<close>

definition UNART_DEFAULT_RX_SKEW :: u32 where "UNART_DEFAULT_RX_SKEW = 30"
definition UNART_RX_FIFO_SIZE :: nat where "UNART_RX_FIFO_SIZE = 32"
definition UNART_TX_FIFO_SIZE :: nat where "UNART_TX_FIFO_SIZE = 1024"
definition NSEC_PER_SEC :: int where "NSEC_PER_SEC = 1000000000"

text \<open>The two module parameters the engines read (\<^verbatim>\<open>unart_params\<close>).\<close>

record unart_module_params =
  param_rx_skew :: u32
  param_rx_debug :: bool

text \<open>
  \<^verbatim>\<open>struct unart_rx\<close>. The input line is not a field: the level that
  \<^verbatim>\<open>gpiod_get_raw_value(rx->gpio)\<close> returns is an argument of the timer callback.
  \<open>rx_push_work\<close> counts the \<^verbatim>\<open>schedule_work(&rx->push_work)\<close> requests made so far.
\<close>

record unart_rx =
  rx_timer :: hrtimer
  rx_skew_percent :: u32
  rx_period :: ktime_t
  rx_skew :: ktime_t
  rx_fifo :: kfifo
  rx_push_work :: nat
  rx_bit_index :: int
  rx_payload :: u8
  rx_debug_toggle :: int

text \<open>
  \<^verbatim>\<open>struct unart_tx\<close>. \<open>tx_gpio\<close> is the output line, as the history of the values
  driven onto it by \<^verbatim>\<open>gpiod_set_raw_value\<close>, oldest first; the line's level is the last one.
  \<open>tx_wakeup_work\<close> counts the \<^verbatim>\<open>schedule_work(&tx->wakeup_work)\<close> requests.
\<close>

record unart_tx =
  tx_gpio :: "int list"
  tx_timer :: hrtimer
  tx_period :: ktime_t
  tx_fifo :: kfifo
  tx_wakeup_work :: nat
  tx_bit_index :: int
  tx_payload :: u8

record unart =
  rx :: unart_rx
  tx :: unart_tx

definition gpiod_set_raw_value :: "int list \<Rightarrow> int \<Rightarrow> int list" where
  "gpiod_set_raw_value line v = line @ [v]"

section \<open>RX engine (unart_rx.c)\<close>

definition unart_rx_debug_toggle :: "unart \<Rightarrow> unart" where
  "unart_rx_debug_toggle u =
     (let t = rx_debug_toggle (rx u) XOR 1
      in u\<lparr>rx := (rx u)\<lparr>rx_debug_toggle := t\<rparr>,
            tx := (tx u)\<lparr>tx_gpio := gpiod_set_raw_value (tx_gpio (tx u)) t\<rparr>\<rparr>)"

text \<open>The edge interrupt; \<open>now\<close> is what \<^verbatim>\<open>ktime_get()\<close> returned.\<close>

definition unart_rx_irq_handler :: "unart_module_params \<Rightarrow> ktime_t \<Rightarrow> unart \<Rightarrow> unart" where
  "unart_rx_irq_handler p now u =
     (if rx_bit_index (rx u) \<noteq> -1 \<or> hrtimer_active (rx_timer (rx u)) then u
      else
        let u1 = u\<lparr>rx := (rx u)\<lparr>rx_payload := 0,
                     rx_timer := hrtimer_start (rx_timer (rx u)) (now + rx_skew (rx u))\<rparr>\<rparr>
        in if param_rx_debug p then unart_rx_debug_toggle u1 else u1)"

text \<open>
  The assignment \<^verbatim>\<open>rx->payload = (bit << 7) | (rx->payload >> 1)\<close>: computed on \<^verbatim>\<open>int\<close>
  after integer promotion, truncated to 8 bits by the store.
\<close>

definition rx_shift_in :: "int \<Rightarrow> u8 \<Rightarrow> u8" where
  "rx_shift_in b pl = word_of_int (push_bit 7 b OR drop_bit 1 (uint pl))"

text \<open>The timer callback; \<open>b\<close> is the sampled level of the input line.\<close>

definition unart_rx_timer_callback ::
  "unart_module_params \<Rightarrow> int \<Rightarrow> unart \<Rightarrow> hrtimer_restart \<times> unart" where
  "unart_rx_timer_callback p b u =
     (let u1 = (if param_rx_debug p then unart_rx_debug_toggle u else u);
          r = rx u1
      in if rx_bit_index r = -1 then
           (if b \<noteq> 0 then (HRTIMER_NORESTART, u1)
            else (HRTIMER_RESTART,
                  u1\<lparr>rx := r\<lparr>rx_bit_index := rx_bit_index r + 1,
                              rx_timer := hrtimer_forward_now (rx_timer r) (rx_period r)\<rparr>\<rparr>))
         else if rx_bit_index r < 8 then
           (HRTIMER_RESTART,
            u1\<lparr>rx := r\<lparr>rx_payload := rx_shift_in b (rx_payload r),
                        rx_bit_index := rx_bit_index r + 1,
                        rx_timer := hrtimer_forward_now (rx_timer r) (rx_period r)\<rparr>\<rparr>)
         else
           (let r1 = (if b = 1
                      then r\<lparr>rx_fifo := snd (kfifo_put (rx_fifo r) (rx_payload r)),
                             rx_push_work := Suc (rx_push_work r)\<rparr>
                      else r)
            in (HRTIMER_NORESTART, u1\<lparr>rx := r1\<lparr>rx_bit_index := -1\<rparr>\<rparr>)))"

text \<open>One expiry of the RX timer: the callback runs, then the timer core acts on its result.\<close>

definition rx_timer_expire :: "unart_module_params \<Rightarrow> int \<Rightarrow> unart \<Rightarrow> hrtimer_restart \<times> unart" where
  "rx_timer_expire p b u =
     (let (ret, u') = unart_rx_timer_callback p b u
      in (ret, u'\<lparr>rx := (rx u')\<lparr>rx_timer := hrtimer_done ret (rx_timer (rx u'))\<rparr>\<rparr>))"

text \<open>
  The timer driven by a sequence of line samples, one per expiry. Once a callback answers
  \<^verbatim>\<open>HRTIMER_NORESTART\<close> the timer is stopped and the remaining samples are never taken.
\<close>

fun rx_run :: "unart_module_params \<Rightarrow> int list \<Rightarrow> unart \<Rightarrow> unart" where
  "rx_run p [] u = u"
| "rx_run p (b # bs) u =
     (case rx_timer_expire p b u of
        (HRTIMER_NORESTART, u') \<Rightarrow> u'
      | (HRTIMER_RESTART, u') \<Rightarrow> rx_run p bs u')"

text \<open>The line levels of a well-formed frame for byte \<open>b\<close>, as sampled once per bit.\<close>

definition data_samples :: "u8 \<Rightarrow> int list" where
  "data_samples b =
     [of_bool (bit b 0), of_bool (bit b 1), of_bool (bit b 2), of_bool (bit b 3),
      of_bool (bit b 4), of_bool (bit b 5), of_bool (bit b 6), of_bool (bit b 7)]"

definition frame_samples :: "u8 \<Rightarrow> int list" where
  "frame_samples b = 0 # data_samples b @ [1]"

text \<open>The parts of the receiver state that a frame acts on.\<close>

definition rx_frame_state :: "unart \<Rightarrow> int \<times> u8 \<times> kfifo \<times> nat" where
  "rx_frame_state u =
     (rx_bit_index (rx u), rx_payload (rx u), rx_fifo (rx u), rx_push_work (rx u))"

text \<open>
  The deferred delivery: what is handed to \<^verbatim>\<open>push_callback\<close> (the first \<open>n\<close> bytes of the
  local buffer), and the receiver afterwards.
\<close>

definition unart_rx_push_work :: "unart_rx \<Rightarrow> u8 list \<times> unart_rx" where
  "unart_rx_push_work r =
     (let (buf, f) = kfifo_out (rx_fifo r) UNART_RX_FIFO_SIZE
      in (buf, r\<lparr>rx_fifo := f\<rparr>))"

text \<open>
  Integer division by zero has no result in C; \<open>set_baud_rate\<close> divides without a guard,
  so the model makes the fault a value.
\<close>

datatype fault = DivideByZero

definition unart_rx_set_baud_rate :: "unart_rx \<Rightarrow> u32 \<Rightarrow> fault + unart_rx" where
  "unart_rx_set_baud_rate r baudrate =
     (if baudrate = 0 then Inl DivideByZero
      else
        let period = NSEC_PER_SEC div uint baudrate
        in Inr (r\<lparr>rx_period := period,
                  rx_skew := (period * uint (rx_skew_percent r)) div 100\<rparr>))"

text \<open>
  \<^verbatim>\<open>unart_rx_setup\<close>. The results of the calls into the device framework are given by
  \<open>rx_setup_env\<close>: an \<^verbatim>\<open>int\<close> is the call's return value (0 on success, else a negative
  errno), \<open>env_rx_skew_prop\<close> is the value of the device property \<^verbatim>\<open>rx-skew\<close> when reading
  it succeeds.
\<close>

record rx_setup_env =
  env_kfifo_alloc :: int
  env_gpiod_get :: int
  env_gpiod_cansleep :: bool
  env_rx_skew_prop :: "u32 option"
  env_request_irq :: int
  env_add_action :: int

definition EINVAL :: int where "EINVAL = 22"

definition clamp :: "u32 \<Rightarrow> u32 \<Rightarrow> u32 \<Rightarrow> u32" where
  "clamp val lo hi = min (max val lo) hi"

definition unart_rx_setup ::
  "rx_setup_env \<Rightarrow> unart_module_params \<Rightarrow> unart_rx \<Rightarrow> int + unart_rx" where
  "unart_rx_setup env p r =
     (let r1 = r\<lparr>rx_bit_index := -1, rx_debug_toggle := 0\<rparr>
      in if env_kfifo_alloc env \<noteq> 0 then Inl (env_kfifo_alloc env)
         else
           let r2 = r1\<lparr>rx_fifo := kfifo_alloc UNART_RX_FIFO_SIZE\<rparr>
           in if env_gpiod_get env \<noteq> 0 then Inl (env_gpiod_get env)
              else if env_gpiod_cansleep env then Inl (- EINVAL)
              else
                let sp = (case env_rx_skew_prop env of
                            Some v \<Rightarrow> v | None \<Rightarrow> param_rx_skew p);
                    r3 = r2\<lparr>rx_skew_percent := clamp sp 0 100\<rparr>
                in if env_request_irq env \<noteq> 0 then Inl (env_request_irq env)
                   else
                     let r4 = r3\<lparr>rx_timer := hrtimer_setup\<rparr>
                     in if env_add_action env \<noteq> 0 then Inl (env_add_action env)
                        else Inr r4)"

section \<open>TX engine (unart_tx.c)\<close>





text \<open>\<^verbatim>\<open>unart_tx_write\<close>; \<open>now\<close> is what \<^verbatim>\<open>ktime_get()\<close> returns. The result is the return value and the transmitter afterwards.\<close>

definition unart_tx_write ::
  "unart_module_params \<Rightarrow> ktime_t \<Rightarrow> u8 list \<Rightarrow> unart_tx \<Rightarrow> int \<times> unart_tx" where
  "unart_tx_write p now buf t =
     (if param_rx_debug p then (int (length buf), t)
      else
        let (ret, f) = kfifo_in (tx_fifo t) buf;
            t1 = t\<lparr>tx_fifo := f\<rparr>
        in if \<not> hrtimer_active (tx_timer t1) then
             (case kfifo_get (tx_fifo t1) of
                Some (v, f') \<Rightarrow>
                  (int ret,
                   t1\<lparr>tx_payload := v, tx_fifo := f', tx_bit_index := -1,
                      tx_timer := hrtimer_start (tx_timer t1) (now + tx_period t1)\<rparr>)
              | None \<Rightarrow> (int ret, t1))
           else (int ret, t1))"

definition unart_tx_write_room :: "unart_tx \<Rightarrow> nat" where
  "unart_tx_write_room t = kfifo_avail (tx_fifo t)"

definition unart_tx_set_baud_rate :: "unart_tx \<Rightarrow> u32 \<Rightarrow> fault + unart_tx" where
  "unart_tx_set_baud_rate t baudrate =
     (if baudrate = 0 then Inl DivideByZero
      else Inr (t\<lparr>tx_period := NSEC_PER_SEC div uint baudrate\<rparr>))"

section \<open>The RX engine as a transition system\<close>

definition rx_idle :: "unart \<Rightarrow> bool" where
  "rx_idle u = (rx_bit_index (rx u) = -1 \<and> \<not> hrtimer_active (rx_timer (rx u)))"

text \<open>The edge handler takes its second path: a start edge is detected.\<close>

definition rx_edge_starts :: "unart \<Rightarrow> bool" where
  "rx_edge_starts u = (\<not> (rx_bit_index (rx u) \<noteq> -1 \<or> hrtimer_active (rx_timer (rx u))))"

text \<open>The timer callback takes its last branch: this sample is the stop-bit sample.\<close>

definition rx_stop_sample :: "unart \<Rightarrow> bool" where
  "rx_stop_sample u = (rx_bit_index (rx u) \<noteq> -1 \<and> \<not> rx_bit_index (rx u) < 8)"

text \<open>The timer callback takes its first branch and finds the start bit invalid.\<close>

definition rx_start_rejected :: "int \<Rightarrow> unart \<Rightarrow> bool" where
  "rx_start_rejected b u = (rx_bit_index (rx u) = -1 \<and> b \<noteq> 0)"

text \<open>
  The states the receiver reaches from \<open>u0\<close> by edge interrupts (at any time, with any
  clock reading) and by expiries of its timer (only while the timer is active, with any
  sampled level); the diagnostic flag may differ from step to step. Two flags record the
  history along the way:
  \<^item> \<open>awaiting_stop\<close>, in the spec's words: a start edge has been detected and the
    terminating stop-bit sample has not yet occurred;
  \<^item> \<open>frame_open\<close>: a start edge has been detected and since then neither the stop-bit
    sample has occurred nor a start-bit sample been found invalid.
\<close>

inductive rx_reachable :: "unart \<Rightarrow> bool \<Rightarrow> bool \<Rightarrow> unart \<Rightarrow> bool" for u0 :: unart where
  rx_reachable_init: "rx_reachable u0 False False u0"
| rx_reachable_edge:
    "rx_reachable u0 awaiting_stop frame_open u \<Longrightarrow>
     rx_reachable u0 (awaiting_stop \<or> rx_edge_starts u) (frame_open \<or> rx_edge_starts u)
       (unart_rx_irq_handler p now u)"
| rx_reachable_tick:
    "rx_reachable u0 awaiting_stop frame_open u \<Longrightarrow> hrtimer_active (rx_timer (rx u)) \<Longrightarrow>
     rx_reachable u0 (awaiting_stop \<and> \<not> rx_stop_sample u)
       (frame_open \<and> \<not> rx_stop_sample u \<and> \<not> rx_start_rejected b u)
       (snd (rx_timer_expire p b u))"

code_pred rx_reachable .

section \<open>A concrete device\<close>

text \<open>
  The device right after probing, set to 9600 baud with the default skew of 30 percent:
  both queues empty, both timers idle, the output line driven high. The transmitter's
  bit index is 0, as the zeroed allocation leaves it: \<^verbatim>\<open>unart_tx_setup\<close> does not set it,
  \<^verbatim>\<open>unart_tx_write\<close> does before it arms the timer.
\<close>

definition params_default :: unart_module_params where
  "params_default = \<lparr>param_rx_skew = UNART_DEFAULT_RX_SKEW, param_rx_debug = False\<rparr>"

definition params_debug :: unart_module_params where
  "params_debug = \<lparr>param_rx_skew = UNART_DEFAULT_RX_SKEW, param_rx_debug = True\<rparr>"

definition rx_9600 :: unart_rx where
  "rx_9600 = \<lparr>rx_timer = hrtimer_setup, rx_skew_percent = 30, rx_period = 104166,
     rx_skew = 31249, rx_fifo = kfifo_alloc UNART_RX_FIFO_SIZE, rx_push_work = 0,
     rx_bit_index = -1, rx_payload = 0, rx_debug_toggle = 0\<rparr>"

definition tx_9600 :: unart_tx where
  "tx_9600 = \<lparr>tx_gpio = [1], tx_timer = hrtimer_setup, tx_period = 104166,
     tx_fifo = kfifo_alloc UNART_TX_FIFO_SIZE, tx_wakeup_work = 0,
     tx_bit_index = 0, tx_payload = 0\<rparr>"

definition unart_9600 :: unart where
  "unart_9600 = \<lparr>rx = rx_9600, tx = tx_9600\<rparr>"

text \<open>The same receiver with 32 undelivered bytes in its queue, right after a start edge at time 0.\<close>

definition unart_rx_backlog :: unart where
  "unart_rx_backlog =
     unart_9600\<lparr>rx := rx_9600\<lparr>rx_fifo := \<lparr>kf_data = replicate 32 0, kf_size = UNART_RX_FIFO_SIZE\<rparr>,
                               rx_timer := \<lparr>hr_expires = 31249, hr_active = True\<rparr>\<rparr>\<rparr>"

text \<open>A probe in which every framework call succeeds and the device property \<^verbatim>\<open>rx-skew\<close> is 100.\<close>

definition env_skew_100 :: rx_setup_env where
  "env_skew_100 = \<lparr>env_kfifo_alloc = 0, env_gpiod_get = 0, env_gpiod_cansleep = False,
     env_rx_skew_prop = Some 100, env_request_irq = 0, env_add_action = 0\<rparr>"

definition rx_skew_100 :: unart_rx where
  "rx_skew_100 = rx_9600\<lparr>rx_skew_percent := 100\<rparr>"

section \<open>Properties\<close>

subsection \<open>Shifting samples into the payload\<close>

lemma rx_shift_in_of_bool:
  "rx_shift_in (of_bool c) pl = push_bit 7 (of_bool c) OR drop_bit 1 pl"
proof -
  have "(word_of_int (drop_bit 1 (uint pl)) :: u8) = drop_bit 1 pl"
    by (rule bit_word_eqI) (simp add: bit_simps)
  then show ?thesis
    by (simp add: rx_shift_in_def of_int_or_eq)
qed

lemma bit_rx_shift_in:
  "bit (rx_shift_in (of_bool c) pl) n = (if n = 7 then c else n < 7 \<and> bit pl (Suc n))"
  by (auto simp add: rx_shift_in_of_bool bit_simps dest: bit_imp_le_length)

lemma rx_shift_in_byte:
  "rx_shift_in (of_bool (bit b 7)) (rx_shift_in (of_bool (bit b 6)) (rx_shift_in (of_bool (bit b 5))
    (rx_shift_in (of_bool (bit b 4)) (rx_shift_in (of_bool (bit b 3)) (rx_shift_in (of_bool (bit b 2))
      (rx_shift_in (of_bool (bit b 1)) (rx_shift_in (of_bool (bit b 0)) pl))))))) = b"
proof (rule bit_word_eqI)
  fix n
  assume "n < LENGTH(8)"
  then have "n \<in> {0, 1, 2, 3, 4, 5, 6, 7}"
    by auto
  then show "bit (rx_shift_in (of_bool (bit b 7)) (rx_shift_in (of_bool (bit b 6))
      (rx_shift_in (of_bool (bit b 5)) (rx_shift_in (of_bool (bit b 4))
        (rx_shift_in (of_bool (bit b 3)) (rx_shift_in (of_bool (bit b 2))
          (rx_shift_in (of_bool (bit b 1)) (rx_shift_in (of_bool (bit b 0)) pl)))))))) n = bit b n"
    by (auto simp add: bit_rx_shift_in numeral_eq_Suc)
qed

lemma fold_data_samples: "fold rx_shift_in (data_samples b) pl = b"
  unfolding data_samples_def by (simp only: fold_simps o_apply rx_shift_in_byte)

lemma length_data_samples: "length (data_samples b) = 8"
  by (simp add: data_samples_def)

subsection \<open>Single expiries of the RX timer\<close>

lemmas rx_expire_defs = rx_timer_expire_def unart_rx_timer_callback_def unart_rx_debug_toggle_def
  Let_def hrtimer_done_def hrtimer_forward_now_def hrtimer_active_def rx_frame_state_def

lemma expire_start_valid:
  assumes "rx_bit_index (rx u) = -1"
  shows "\<exists>u'. rx_timer_expire p 0 u = (HRTIMER_RESTART, u') \<and>
     rx_frame_state u' = (0, rx_payload (rx u), rx_fifo (rx u), rx_push_work (rx u))"
  using assms by (simp add: rx_expire_defs)

lemma expire_start_invalid:
  assumes "rx_bit_index (rx u) = -1" "b \<noteq> 0"
  shows "\<exists>u'. rx_timer_expire p b u = (HRTIMER_NORESTART, u') \<and>
     rx_frame_state u' = rx_frame_state u \<and> \<not> hrtimer_active (rx_timer (rx u'))"
  using assms by (simp add: rx_expire_defs)

lemma expire_data:
  assumes "0 \<le> rx_bit_index (rx u)" "rx_bit_index (rx u) < 8"
  shows "\<exists>u'. rx_timer_expire p b u = (HRTIMER_RESTART, u') \<and>
     rx_frame_state u' = (rx_bit_index (rx u) + 1, rx_shift_in b (rx_payload (rx u)),
       rx_fifo (rx u), rx_push_work (rx u))"
  using assms by (simp add: rx_expire_defs)

lemma expire_stop:
  assumes "rx_bit_index (rx u) = 8"
  shows "\<exists>u'. rx_timer_expire p b u = (HRTIMER_NORESTART, u') \<and>
     rx_frame_state u' = (-1, rx_payload (rx u),
        (if b = 1 then snd (kfifo_put (rx_fifo (rx u)) (rx_payload (rx u))) else rx_fifo (rx u)),
        (if b = 1 then Suc (rx_push_work (rx u)) else rx_push_work (rx u))) \<and>
     \<not> hrtimer_active (rx_timer (rx u'))"
  using assms by (simp add: rx_expire_defs)

subsection \<open>Whole frames\<close>

lemma rx_run_data:
  assumes "0 \<le> rx_bit_index (rx u)" "rx_bit_index (rx u) + int (length ds) \<le> 8"
  shows "\<exists>u'. rx_run p (ds @ rest) u = rx_run p rest u' \<and>
     rx_frame_state u' = (rx_bit_index (rx u) + int (length ds),
        fold rx_shift_in ds (rx_payload (rx u)), rx_fifo (rx u), rx_push_work (rx u))"
  using assms
proof (induction ds arbitrary: u)
  case Nil
  then show ?case by (intro exI [of _ u]) (simp add: rx_frame_state_def)
next
  case (Cons d ds)
  from Cons.prems obtain u1 where
    s: "rx_timer_expire p d u = (HRTIMER_RESTART, u1)" and
    f: "rx_frame_state u1 = (rx_bit_index (rx u) + 1, rx_shift_in d (rx_payload (rx u)),
          rx_fifo (rx u), rx_push_work (rx u))"
    using expire_data [of u p d] by auto
  from f have b1: "rx_bit_index (rx u1) = rx_bit_index (rx u) + 1"
    and p1: "rx_payload (rx u1) = rx_shift_in d (rx_payload (rx u))"
    and f1: "rx_fifo (rx u1) = rx_fifo (rx u)"
    and w1: "rx_push_work (rx u1) = rx_push_work (rx u)"
    by (simp_all add: rx_frame_state_def)
  from Cons.prems b1
  have "0 \<le> rx_bit_index (rx u1)" "rx_bit_index (rx u1) + int (length ds) \<le> 8"
    by simp_all
  from Cons.IH [OF this] obtain u' where
    r: "rx_run p (ds @ rest) u1 = rx_run p rest u'" and
    g: "rx_frame_state u' = (rx_bit_index (rx u1) + int (length ds),
          fold rx_shift_in ds (rx_payload (rx u1)), rx_fifo (rx u1), rx_push_work (rx u1))"
    by blast
  show ?case
    by (rule exI [of _ u']) (simp add: s r g b1 p1 f1 w1)
qed

lemma rx_run_frame:
  assumes "rx_bit_index (rx u) = -1" "length ds = 8"
  shows "rx_frame_state (rx_run p (0 # ds @ [s]) u) =
     (-1, fold rx_shift_in ds (rx_payload (rx u)),
      (if s = 1 then snd (kfifo_put (rx_fifo (rx u)) (fold rx_shift_in ds (rx_payload (rx u))))
       else rx_fifo (rx u)),
      (if s = 1 then Suc (rx_push_work (rx u)) else rx_push_work (rx u))) \<and>
     \<not> hrtimer_active (rx_timer (rx (rx_run p (0 # ds @ [s]) u)))"
proof -
  from assms(1) obtain u1 where
    s1: "rx_timer_expire p 0 u = (HRTIMER_RESTART, u1)" and
    f1: "rx_frame_state u1 = (0, rx_payload (rx u), rx_fifo (rx u), rx_push_work (rx u))"
    using expire_start_valid [of u p] by blast
  from f1 have b1: "rx_bit_index (rx u1) = 0"
    and e1: "rx_payload (rx u1) = rx_payload (rx u)" "rx_fifo (rx u1) = rx_fifo (rx u)"
      "rx_push_work (rx u1) = rx_push_work (rx u)"
    by (simp_all add: rx_frame_state_def)
  from b1 assms(2)
  have "0 \<le> rx_bit_index (rx u1)" "rx_bit_index (rx u1) + int (length ds) \<le> 8"
    by simp_all
  from rx_run_data [OF this, of p "[s]"] obtain u2 where
    s2: "rx_run p (ds @ [s]) u1 = rx_run p [s] u2" and
    f2: "rx_frame_state u2 = (rx_bit_index (rx u1) + int (length ds),
          fold rx_shift_in ds (rx_payload (rx u1)), rx_fifo (rx u1), rx_push_work (rx u1))"
    by blast
  from f2 b1 assms(2) have b2: "rx_bit_index (rx u2) = 8"
    and e2: "rx_payload (rx u2) = fold rx_shift_in ds (rx_payload (rx u1))"
      "rx_fifo (rx u2) = rx_fifo (rx u1)" "rx_push_work (rx u2) = rx_push_work (rx u1)"
    by (simp_all add: rx_frame_state_def)
  from expire_stop [OF b2, of p s] obtain u3 where
    s3: "rx_timer_expire p s u2 = (HRTIMER_NORESTART, u3)" and
    f3: "rx_frame_state u3 = (-1, rx_payload (rx u2),
        (if s = 1 then snd (kfifo_put (rx_fifo (rx u2)) (rx_payload (rx u2))) else rx_fifo (rx u2)),
        (if s = 1 then Suc (rx_push_work (rx u2)) else rx_push_work (rx u2)))" and
    a3: "\<not> hrtimer_active (rx_timer (rx u3))"
    by blast
  have "rx_run p (0 # ds @ [s]) u = u3"
    by (simp add: s1 s2 s3)
  then show ?thesis
    using f3 a3 by (simp add: e1 e2)
qed

lemma rx_run_bad_start:
  assumes "rx_bit_index (rx u) = -1" "b \<noteq> 0"
  shows "rx_frame_state (rx_run p (b # bs) u) = rx_frame_state u \<and>
     \<not> hrtimer_active (rx_timer (rx (rx_run p (b # bs) u)))"
  using expire_start_invalid [OF assms, of p] by auto

lemma rx_data_step:
  assumes "0 \<le> rx_bit_index (rx v)" "rx_bit_index (rx v) < 8"
  shows "fst (unart_rx_timer_callback p (of_bool c) v) = HRTIMER_RESTART \<and>
     rx_payload (rx (snd (unart_rx_timer_callback p (of_bool c) v))) =
       push_bit 7 (of_bool c) OR drop_bit 1 (rx_payload (rx v)) \<and>
     rx_bit_index (rx (snd (unart_rx_timer_callback p (of_bool c) v))) = rx_bit_index (rx v) + 1"
  using assms
  by (simp add: unart_rx_timer_callback_def unart_rx_debug_toggle_def Let_def
      rx_shift_in_of_bool del: of_bool_eq_0_iff)

text \<open>
  C1. A well-formed frame for byte \<open>b\<close> (start sample 0, the eight bits of \<open>b\<close> from bit 0
  to bit 7, stop sample 1), fed to the timer callback of an idle receiver, reconstructs
  \<open>b\<close> whatever the payload held before (in particular 0): every data sample becomes the
  high bit of the payload and the former contents move one place down, and at the stop
  sample the payload equals \<open>b\<close>, delivery is requested, the receiver is idle again and its
  timer stopped. The byte is appended to the RX queue when the queue has room; when the
  queue already holds its full capacity the byte is dropped and the queue is unchanged.
\<close>

theorem rx_frame_reconstructs_byte:
  assumes "rx_bit_index (rx u) = -1"
  shows "(\<forall>c v. 0 \<le> rx_bit_index (rx v) \<and> rx_bit_index (rx v) < 8 \<longrightarrow>
            fst (unart_rx_timer_callback p (of_bool c) v) = HRTIMER_RESTART \<and>
            rx_payload (rx (snd (unart_rx_timer_callback p (of_bool c) v))) =
              push_bit 7 (of_bool c) OR drop_bit 1 (rx_payload (rx v)) \<and>
            rx_bit_index (rx (snd (unart_rx_timer_callback p (of_bool c) v))) =
              rx_bit_index (rx v) + 1) \<and>
         rx_payload (rx (rx_run p (frame_samples b) u)) = b \<and>
         kf_data (rx_fifo (rx (rx_run p (frame_samples b) u))) =
           (if kfifo_is_full (rx_fifo (rx u)) then kf_data (rx_fifo (rx u))
            else kf_data (rx_fifo (rx u)) @ [b]) \<and>
         rx_push_work (rx (rx_run p (frame_samples b) u)) = Suc (rx_push_work (rx u)) \<and>
         rx_bit_index (rx (rx_run p (frame_samples b) u)) = -1 \<and>
         \<not> hrtimer_active (rx_timer (rx (rx_run p (frame_samples b) u)))"
proof -
  have "rx_frame_state (rx_run p (frame_samples b) u) =
      (-1, b, snd (kfifo_put (rx_fifo (rx u)) b), Suc (rx_push_work (rx u))) \<and>
      \<not> hrtimer_active (rx_timer (rx (rx_run p (frame_samples b) u)))"
    using rx_run_frame [OF assms length_data_samples, of p b 1]
    by (simp add: frame_samples_def fold_data_samples)
  then show ?thesis
    using rx_data_step by (simp add: rx_frame_state_def kfifo_put_def)
qed

theorem rx_frame_reconstructs_byte_witness:
  "rx_bit_index (rx unart_9600) = -1 \<and>
   kf_data (rx_fifo (rx (rx_run params_default (frame_samples 0x41) unart_9600))) = [0x41] \<and>
   rx_payload (rx (rx_run params_default (frame_samples 0x41) unart_9600)) = 0x41"
  using rx_frame_reconstructs_byte [of unart_9600 params_default "0x41"]
  by (simp add: unart_9600_def rx_9600_def kfifo_alloc_def kfifo_is_full_def kfifo_len_def
      UNART_RX_FIFO_SIZE_def)

text \<open>
  The claim as stated fails when the RX queue is full: with 32 undelivered bytes queued, a
  well-formed frame for 0x41 leaves the queue as it was.
\<close>

theorem rx_frame_full_queue_counterexample:
  "rx_bit_index (rx unart_rx_backlog) = -1 \<and> rx_payload (rx unart_rx_backlog) = 0 \<and>
   kf_data (rx_fifo (rx (rx_run params_default (frame_samples 0x41) unart_rx_backlog))) =
     kf_data (rx_fifo (rx unart_rx_backlog)) \<and>
   kf_data (rx_fifo (rx (rx_run params_default (frame_samples 0x41) unart_rx_backlog))) \<noteq>
     kf_data (rx_fifo (rx unart_rx_backlog)) @ [0x41]"
proof -
  have i: "rx_bit_index (rx unart_rx_backlog) = -1"
    by (simp add: unart_rx_backlog_def unart_9600_def rx_9600_def)
  have "rx_frame_state (rx_run params_default (frame_samples 0x41) unart_rx_backlog) =
      (-1, 0x41, snd (kfifo_put (rx_fifo (rx unart_rx_backlog)) 0x41),
       Suc (rx_push_work (rx unart_rx_backlog)))"
    using rx_run_frame [OF i length_data_samples, of params_default "0x41" 1]
    by (simp add: frame_samples_def fold_data_samples)
  then show ?thesis
    by (simp add: rx_frame_state_def kfifo_put_def kfifo_is_full_def kfifo_len_def
        unart_rx_backlog_def unart_9600_def rx_9600_def UNART_RX_FIFO_SIZE_def)
qed

text \<open>
  C3. From an idle receiver: if the start-bit sample is not 0 (in particular if it reads
  1), the frame is abandoned at once, whatever samples follow; and if the start-bit sample
  is valid but the stop-bit sample is not 1 (in particular if it reads 0), then for every
  choice of the eight data samples the frame ends without effect. In both cases the RX
  queue is unchanged, no delivery has been requested, the receiver is idle and its timer
  stopped. The callback has no way to report an error.
\<close>

theorem rx_bad_frame_delivers_nothing:
  assumes "rx_bit_index (rx u) = -1"
  shows "(start \<noteq> 0 \<longrightarrow>
            rx_fifo (rx (rx_run p (start # rest) u)) = rx_fifo (rx u) \<and>
            rx_push_work (rx (rx_run p (start # rest) u)) = rx_push_work (rx u) \<and>
            rx_bit_index (rx (rx_run p (start # rest) u)) = -1 \<and>
            \<not> hrtimer_active (rx_timer (rx (rx_run p (start # rest) u)))) \<and>
         (length ds = 8 \<and> stop \<noteq> 1 \<longrightarrow>
            rx_fifo (rx (rx_run p (0 # ds @ [stop]) u)) = rx_fifo (rx u) \<and>
            rx_push_work (rx (rx_run p (0 # ds @ [stop]) u)) = rx_push_work (rx u) \<and>
            rx_bit_index (rx (rx_run p (0 # ds @ [stop]) u)) = -1 \<and>
            \<not> hrtimer_active (rx_timer (rx (rx_run p (0 # ds @ [stop]) u))))"
proof (intro conjI impI)
  assume "start \<noteq> 0"
  from rx_run_bad_start [OF assms this, of p rest]
  show "rx_fifo (rx (rx_run p (start # rest) u)) = rx_fifo (rx u)"
    and "rx_push_work (rx (rx_run p (start # rest) u)) = rx_push_work (rx u)"
    and "rx_bit_index (rx (rx_run p (start # rest) u)) = -1"
    and "\<not> hrtimer_active (rx_timer (rx (rx_run p (start # rest) u)))"
    using assms by (simp_all add: rx_frame_state_def)
next
  assume "length ds = 8 \<and> stop \<noteq> 1"
  then have l: "length ds = 8" and s: "stop \<noteq> 1"
    by simp_all
  from rx_run_frame [OF assms l, of p stop] s
  show "rx_fifo (rx (rx_run p (0 # ds @ [stop]) u)) = rx_fifo (rx u)"
    and "rx_push_work (rx (rx_run p (0 # ds @ [stop]) u)) = rx_push_work (rx u)"
    and "rx_bit_index (rx (rx_run p (0 # ds @ [stop]) u)) = -1"
    and "\<not> hrtimer_active (rx_timer (rx (rx_run p (0 # ds @ [stop]) u)))"
    by (simp_all add: rx_frame_state_def)
qed

theorem rx_bad_frame_delivers_nothing_witness:
  "rx_bit_index (rx unart_9600) = -1 \<and> (1::int) \<noteq> 0 \<and>
   rx_fifo (rx (rx_run params_default [1, 1, 0, 1] unart_9600)) = rx_fifo (rx unart_9600) \<and>
   length [1, 0, 0, 0, 0, 0, 1, 0 :: int] = 8 \<and> (0::int) \<noteq> 1 \<and>
   rx_fifo (rx (rx_run params_default (0 # [1, 0, 0, 0, 0, 0, 1, 0] @ [0]) unart_9600)) =
     rx_fifo (rx unart_9600) \<and>
   rx_push_work (rx (rx_run params_default (0 # [1, 0, 0, 0, 0, 0, 1, 0] @ [0]) unart_9600)) = 0"
  using rx_bad_frame_delivers_nothing
    [of unart_9600 1 params_default "[1, 0, 1]" "[1, 0, 0, 0, 0, 0, 1, 0]" 0]
  by (simp add: unart_9600_def rx_9600_def)

subsection \<open>Running the TX timer\<close>











subsection \<open>Queue bookkeeping\<close>

lemma kfifo_put_bounded:
  "kfifo_len f \<le> kf_size f \<Longrightarrow> kfifo_len (snd (kfifo_put f v)) \<le> kf_size (snd (kfifo_put f v))"
  by (simp add: kfifo_put_def kfifo_is_full_def kfifo_len_def)

lemma kfifo_in_bounded:
  "kfifo_len f \<le> kf_size f \<Longrightarrow> kfifo_len (snd (kfifo_in f buf)) \<le> kf_size (snd (kfifo_in f buf))"
  by (simp add: kfifo_in_def kfifo_avail_def kfifo_len_def Let_def)

lemma kfifo_get_bounded:
  "kfifo_len f \<le> kf_size f \<Longrightarrow> kfifo_get f = Some (v, f') \<Longrightarrow> kfifo_len f' \<le> kf_size f'"
  by (auto simp add: kfifo_get_def kfifo_len_def split: list.splits)

lemma kfifo_in_overflow:
  assumes "kfifo_len f \<le> kf_size f" "kfifo_avail f < length buf"
  shows "kfifo_in f buf = (kfifo_avail f, f\<lparr>kf_data := kf_data f @ take (kfifo_avail f) buf\<rparr>)"
    and "length (kf_data f @ take (kfifo_avail f) buf) = kf_size f"
  using assms by (simp_all add: kfifo_in_def kfifo_avail_def kfifo_len_def Let_def min_def)

lemma tx_write_active:
  assumes "\<not> param_rx_debug p" "hrtimer_active (tx_timer t)"
  shows "unart_tx_write p now buf t =
     (int (fst (kfifo_in (tx_fifo t) buf)), t\<lparr>tx_fifo := snd (kfifo_in (tx_fifo t) buf)\<rparr>)"
  using assms by (simp add: unart_tx_write_def Let_def split_beta)

lemma tx_write_idle:
  assumes "\<not> param_rx_debug p" "\<not> hrtimer_active (tx_timer t)"
    "kf_data (snd (kfifo_in (tx_fifo t) buf)) = v # rest"
  shows "unart_tx_write p now buf t =
     (int (fst (kfifo_in (tx_fifo t) buf)),
      t\<lparr>tx_fifo := (snd (kfifo_in (tx_fifo t) buf))\<lparr>kf_data := rest\<rparr>,
        tx_payload := v, tx_bit_index := -1,
        tx_timer := hrtimer_start (tx_timer t) (now + tx_period t)\<rparr>)"
  using assms by (simp add: unart_tx_write_def Let_def split_beta kfifo_get_def)

text \<open>
  C4 as stated fails on an idle transmitter: 1025 bytes written to the empty queue of
  capacity 1024 are accepted up to 1024, but the write at once moves the first of them into
  \<open>tx_payload\<close>, so the queue is left with 1023 bytes, not full.
\<close>

theorem tx_write_idle_not_full_counterexample:
  "\<not> param_rx_debug params_default \<and>
   kfifo_avail (tx_fifo tx_9600) = 1024 \<and> length (replicate 1025 (0::u8)) = 1025 \<and>
   fst (unart_tx_write params_default 0 (replicate 1025 0) tx_9600) = 1024 \<and>
   kfifo_len (tx_fifo (snd (unart_tx_write params_default 0 (replicate 1025 0) tx_9600))) = 1023 \<and>
   \<not> kfifo_is_full (tx_fifo (snd (unart_tx_write params_default 0 (replicate 1025 0) tx_9600)))"
proof -
  have a: "kfifo_avail (tx_fifo tx_9600) = 1024"
    by (simp add: tx_9600_def kfifo_alloc_def kfifo_avail_def kfifo_len_def UNART_TX_FIFO_SIZE_def)
  have k: "kfifo_in (tx_fifo tx_9600) (replicate 1025 0) =
      (1024, (tx_fifo tx_9600)\<lparr>kf_data := replicate 1024 0\<rparr>)"
    by (simp add: kfifo_in_def a Let_def) (simp add: tx_9600_def kfifo_alloc_def)
  have r: "replicate 1024 (0::u8) = 0 # replicate 1023 0"
    by (simp add: replicate_Suc [symmetric] del: replicate_Suc)
  have w: "unart_tx_write params_default 0 (replicate 1025 0) tx_9600 =
     (1024, tx_9600\<lparr>tx_fifo := (tx_fifo tx_9600)\<lparr>kf_data := replicate 1023 0\<rparr>,
        tx_payload := 0, tx_bit_index := -1,
        tx_timer := hrtimer_start (tx_timer tx_9600) (0 + tx_period tx_9600)\<rparr>)"
    using tx_write_idle [of params_default tx_9600 "replicate 1025 0" 0 "replicate 1023 0" 0]
    by (simp add: k r) (simp add: params_default_def tx_9600_def hrtimer_active_def hrtimer_setup_def)
  show ?thesis
    by (simp add: w a)
      (simp add: params_default_def tx_9600_def kfifo_is_full_def kfifo_len_def kfifo_alloc_def
        UNART_TX_FIFO_SIZE_def)
qed

text \<open>
  C4, amended. With diagnostic mode off and a TX queue of capacity 1024 whose free capacity
  \<open>F\<close> is less than the length of the buffer, \<open>unart_tx_write\<close> returns \<open>F\<close> and accepts
  exactly the first \<open>F\<close> bytes. If the TX timer is active the queue is left full and the
  timer, payload and bit index are untouched. If the timer is idle, the oldest queued byte
  is moved into the payload, the bit index is set to -1, the timer is armed for \<open>now\<close> plus
  one period, and the queue is left with exactly one free slot.
\<close>

theorem tx_write_overflow:
  assumes "\<not> param_rx_debug p"
    and "kf_size (tx_fifo t) = UNART_TX_FIFO_SIZE"
    and "kfifo_len (tx_fifo t) \<le> kf_size (tx_fifo t)"
    and "kfifo_avail (tx_fifo t) < length buf"
  shows "fst (unart_tx_write p now buf t) = int (kfifo_avail (tx_fifo t)) \<and>
     (hrtimer_active (tx_timer t) \<longrightarrow>
        kf_data (tx_fifo (snd (unart_tx_write p now buf t))) =
          kf_data (tx_fifo t) @ take (kfifo_avail (tx_fifo t)) buf \<and>
        kfifo_is_full (tx_fifo (snd (unart_tx_write p now buf t))) \<and>
        tx_timer (snd (unart_tx_write p now buf t)) = tx_timer t \<and>
        tx_payload (snd (unart_tx_write p now buf t)) = tx_payload t \<and>
        tx_bit_index (snd (unart_tx_write p now buf t)) = tx_bit_index t) \<and>
     (\<not> hrtimer_active (tx_timer t) \<longrightarrow>
        tx_payload (snd (unart_tx_write p now buf t)) #
            kf_data (tx_fifo (snd (unart_tx_write p now buf t))) =
          kf_data (tx_fifo t) @ take (kfifo_avail (tx_fifo t)) buf \<and>
        kfifo_avail (tx_fifo (snd (unart_tx_write p now buf t))) = 1 \<and>
        tx_bit_index (snd (unart_tx_write p now buf t)) = -1 \<and>
        hrtimer_active (tx_timer (snd (unart_tx_write p now buf t))) \<and>
        hr_expires (tx_timer (snd (unart_tx_write p now buf t))) = now + tx_period t)"
proof -
  let ?F = "kfifo_avail (tx_fifo t)"
  let ?d = "kf_data (tx_fifo t) @ take ?F buf"
  note k = kfifo_in_overflow [OF assms(3,4)]
  have l: "length ?d = 1024"
    using k(2) assms(2) by (simp add: UNART_TX_FIFO_SIZE_def)
  show ?thesis
  proof (cases "hrtimer_active (tx_timer t)")
    case True
    with tx_write_active [OF assms(1) True, of now buf] l assms(2) show ?thesis
      by (simp add: k(1) kfifo_is_full_def kfifo_len_def UNART_TX_FIFO_SIZE_def)
  next
    case False
    from l obtain v rest where d: "?d = v # rest"
      by (cases ?d) simp_all
    with l have lr: "length rest = 1023"
      by simp
    have "kf_data (snd (kfifo_in (tx_fifo t) buf)) = v # rest"
      by (simp add: k(1) d)
    from tx_write_idle [OF assms(1) False this, of now]
    have w: "unart_tx_write p now buf t =
       (int ?F, t\<lparr>tx_fifo := (tx_fifo t)\<lparr>kf_data := rest\<rparr>, tx_payload := v,
          tx_bit_index := -1,
          tx_timer := hrtimer_start (tx_timer t) (now + tx_period t)\<rparr>)"
      by (simp add: k(1))
    have "kfifo_avail ((tx_fifo t)\<lparr>kf_data := rest\<rparr>) = 1"
      using lr assms(2) by (simp add: kfifo_avail_def kfifo_len_def UNART_TX_FIFO_SIZE_def)
    with False d show ?thesis
      by (simp add: w hrtimer_start_def hrtimer_active_def)
  qed
qed

theorem tx_write_overflow_witness:
  "\<not> param_rx_debug params_default \<and> kf_size (tx_fifo tx_9600) = UNART_TX_FIFO_SIZE \<and>
   kfifo_len (tx_fifo tx_9600) \<le> kf_size (tx_fifo tx_9600) \<and>
   kfifo_avail (tx_fifo tx_9600) < length (replicate 1025 (7::u8)) \<and>
   \<not> hrtimer_active (tx_timer tx_9600) \<and>
   fst (unart_tx_write params_default 5 (replicate 1025 7) tx_9600) = 1024 \<and>
   kfifo_avail (tx_fifo (snd (unart_tx_write params_default 5 (replicate 1025 7) tx_9600))) = 1 \<and>
   hr_expires (tx_timer (snd (unart_tx_write params_default 5 (replicate 1025 7) tx_9600))) =
     104171"
  using tx_write_overflow [of params_default tx_9600 "replicate 1025 7" 5]
  by (simp add: params_default_def tx_9600_def kfifo_alloc_def kfifo_avail_def kfifo_len_def
      UNART_TX_FIFO_SIZE_def hrtimer_active_def hrtimer_setup_def)

subsection \<open>Edge interrupts during a frame\<close>

text \<open>
  C6. When a frame is in progress (the bit index is not -1, or the RX timer is active),
  the edge-interrupt handler changes nothing at all: payload, bit index, RX queue, timer
  deadline and every other field are as before, whatever the clock and the diagnostic flag.
\<close>

theorem rx_irq_ignored_in_frame:
  assumes "rx_bit_index (rx u) \<noteq> -1 \<or> hrtimer_active (rx_timer (rx u))"
  shows "unart_rx_irq_handler p now u = u"
  using assms by (simp add: unart_rx_irq_handler_def)

theorem rx_irq_ignored_in_frame_witness:
  "hrtimer_active (rx_timer (rx unart_rx_backlog)) \<and>
   unart_rx_irq_handler params_debug 777 unart_rx_backlog = unart_rx_backlog"
  using rx_irq_ignored_in_frame [of unart_rx_backlog params_debug 777]
  by (simp add: unart_rx_backlog_def hrtimer_active_def)

subsection \<open>Baud rate\<close>

lemma one_le_u32: "1 \<le> (w :: u32) \<longleftrightarrow> w \<noteq> 0"
  by (simp add: word_le_nat_alt unat_eq_0 Suc_le_eq unat_gt_0)

lemma skew_product_fits_s64:
  assumes "unart_rx_set_baud_rate r baudrate = Inr r'"
  shows "0 \<le> rx_period r' * uint (rx_skew_percent r) \<and>
     rx_period r' * uint (rx_skew_percent r) < 2 ^ 63"
proof -
  from assms have n: "baudrate \<noteq> 0" and p: "rx_period r' = NSEC_PER_SEC div uint baudrate"
    by (auto simp add: unart_rx_set_baud_rate_def Let_def split: if_splits)
  have "0 < uint baudrate"
    using n by (simp add: word_neq_0_conv word_less_def)
  then have "NSEC_PER_SEC div uint baudrate \<le> NSEC_PER_SEC"
    by (simp add: NSEC_PER_SEC_def int_div_less_self zdiv_mono2 [of _ 1, simplified] div_le_dividend)
  with p have b: "0 \<le> rx_period r'" "rx_period r' \<le> 1000000000"
    using \<open>0 < uint baudrate\<close> by (simp_all add: NSEC_PER_SEC_def pos_imp_zdiv_nonneg_iff)
  have s: "0 \<le> uint (rx_skew_percent r)" "uint (rx_skew_percent r) < 2 ^ 32"
    using uint_lt2p [of "rx_skew_percent r"] by simp_all
  have "rx_period r' * uint (rx_skew_percent r) \<le> 1000000000 * uint (rx_skew_percent r)"
    using b s by (intro mult_right_mono) simp_all
  also have "\<dots> < 1000000000 * 2 ^ 32"
    using s by simp
  finally show ?thesis
    using b s by simp
qed

text \<open>
  C9. Both \<open>set_baud_rate\<close> operations divide \<^verbatim>\<open>NSEC_PER_SEC\<close> by the baud rate without
  checking it. For every baud rate of at least 1 they succeed and set the period to the
  quotient; for the baud rate 0 both end in the division fault.
\<close>

theorem set_baud_rate_division:
  "(1 \<le> baudrate \<longrightarrow>
      (\<exists>r'. unart_rx_set_baud_rate r baudrate = Inr r' \<and>
            rx_period r' = NSEC_PER_SEC div uint baudrate) \<and>
      (\<exists>t'. unart_tx_set_baud_rate t baudrate = Inr t' \<and>
            tx_period t' = NSEC_PER_SEC div uint baudrate)) \<and>
   unart_rx_set_baud_rate r 0 = Inl DivideByZero \<and>
   unart_tx_set_baud_rate t 0 = Inl DivideByZero"
  by (simp add: one_le_u32 unart_rx_set_baud_rate_def unart_tx_set_baud_rate_def Let_def)

theorem set_baud_rate_division_witness:
  "(1::u32) \<le> 9600 \<and>
   unart_rx_set_baud_rate rx_9600 9600 = Inr rx_9600 \<and>
   unart_tx_set_baud_rate tx_9600 9600 = Inr tx_9600 \<and>
   unart_rx_set_baud_rate rx_9600 0 = Inl DivideByZero \<and>
   unart_tx_set_baud_rate tx_9600 0 = Inl DivideByZero"
  using set_baud_rate_division [of 9600 rx_9600 tx_9600]
  by (simp add: unart_rx_set_baud_rate_def unart_tx_set_baud_rate_def rx_9600_def tx_9600_def
      NSEC_PER_SEC_def Let_def)

lemma clamp_le_hi: "lo \<le> hi \<Longrightarrow> clamp val lo hi \<le> hi"
  by (simp add: clamp_def)

lemma unart_rx_setup_skew_percent:
  assumes "unart_rx_setup env p r0 = Inr r1"
  shows "rx_skew_percent r1 \<le> 100"
  using assms
  by (auto simp add: unart_rx_setup_def Let_def clamp_le_hi split: if_splits)

text \<open>
  C5 as stated fails at the upper end of the clamp: a device whose \<^verbatim>\<open>rx-skew\<close> property is
  100 is set up with \<open>rx_skew_percent = 100\<close>, and at 9600 baud the skew then equals the
  period, 104166 ns.
\<close>

theorem rx_skew_100_counterexample:
  "unart_rx_setup env_skew_100 params_default rx_9600 = Inr rx_skew_100 \<and>
   unart_rx_set_baud_rate rx_skew_100 9600 =
     Inr (rx_skew_100\<lparr>rx_period := 104166, rx_skew := 104166\<rparr>)"
  by (simp add: unart_rx_setup_def unart_rx_set_baud_rate_def env_skew_100_def rx_skew_100_def
      rx_9600_def clamp_def NSEC_PER_SEC_def Let_def)

text \<open>
  C5, amended. Setup leaves \<open>rx_skew_percent\<close> at most 100. For every baud rate \<open>B\<close> of at
  least 1 and every such \<open>rx_skew_percent\<close>, \<open>unart_rx_set_baud_rate\<close> sets the period to
  \<open>10^9 div B\<close> and the skew to \<open>period * rx_skew_percent div 100\<close>, and
  \<open>0 \<le> skew \<le> period\<close>; the skew is strictly below the period exactly when
  \<open>rx_skew_percent\<close> is below 100 and \<open>B\<close> is at most \<open>10^9\<close> (so that the period is not 0).
\<close>

theorem rx_set_baud_rate_period_skew:
  assumes "1 \<le> baudrate" "rx_skew_percent r \<le> 100"
  shows "(\<forall>env p r0 r1. unart_rx_setup env p r0 = Inr r1 \<longrightarrow> rx_skew_percent r1 \<le> 100) \<and>
     (\<exists>r'. unart_rx_set_baud_rate r baudrate = Inr r' \<and>
        rx_period r' = 1000000000 div uint baudrate \<and>
        rx_skew r' = (rx_period r' * uint (rx_skew_percent r)) div 100 \<and>
        0 \<le> rx_skew r' \<and> rx_skew r' \<le> rx_period r' \<and>
        (rx_skew r' < rx_period r' \<longleftrightarrow>
           rx_skew_percent r < 100 \<and> baudrate \<le> 1000000000))"
proof -
  let ?P = "1000000000 div uint baudrate"
  let ?s = "uint (rx_skew_percent r)"
  from assms(1) have n: "baudrate \<noteq> 0"
    by (simp add: one_le_u32)
  then have pos: "0 < uint baudrate"
    by (simp add: word_neq_0_conv word_less_def)
  have s: "0 \<le> ?s" "?s \<le> 100"
    using assms(2) by (simp_all add: word_le_def)
  have P0: "0 \<le> ?P"
    using pos by (simp add: pos_imp_zdiv_nonneg_iff)
  have Ppos: "0 < ?P \<longleftrightarrow> baudrate \<le> 1000000000"
    using pos by (simp add: pos_imp_zdiv_pos_iff word_le_def)
  have lo: "0 \<le> (?P * ?s) div 100"
    using P0 s by (simp add: pos_imp_zdiv_nonneg_iff)
  have "?P * ?s \<le> ?P * 100"
    using P0 s by (intro mult_left_mono) simp_all
  then have hi: "(?P * ?s) div 100 \<le> ?P"
    using zdiv_mono1 [of "?P * ?s" "?P * 100" 100] by simp
  have lin: "q < b \<longleftrightarrow> 100 * q + m < b * 100" if "0 \<le> m" "m < 100" for q m b :: int
    using that by arith
  have "(?P * ?s) div 100 < ?P \<longleftrightarrow>
      100 * ((?P * ?s) div 100) + (?P * ?s) mod 100 < ?P * 100"
    by (rule lin) simp_all
  then have "(?P * ?s) div 100 < ?P \<longleftrightarrow> ?P * ?s < ?P * 100"
    by simp
  also have "\<dots> \<longleftrightarrow> 0 < ?P \<and> ?s < 100"
    using P0 by (auto simp add: mult_less_cancel_left)
  also have "\<dots> \<longleftrightarrow> rx_skew_percent r < 100 \<and> baudrate \<le> 1000000000"
    using Ppos by (auto simp add: word_less_def)
  finally have strict: "(?P * ?s) div 100 < ?P \<longleftrightarrow>
      rx_skew_percent r < 100 \<and> baudrate \<le> 1000000000" .
  have "unart_rx_set_baud_rate r baudrate =
      Inr (r\<lparr>rx_period := ?P, rx_skew := (?P * ?s) div 100\<rparr>)"
    using n by (simp add: unart_rx_set_baud_rate_def NSEC_PER_SEC_def Let_def)
  then show ?thesis
    using lo hi strict unart_rx_setup_skew_percent by auto
qed

theorem rx_set_baud_rate_period_skew_witness:
  "(1::u32) \<le> 9600 \<and> rx_skew_percent rx_9600 \<le> 100 \<and>
   unart_rx_set_baud_rate (rx_9600\<lparr>rx_period := 0, rx_skew := 0\<rparr>) 9600 = Inr rx_9600 \<and>
   rx_period rx_9600 = 104166 \<and> rx_skew rx_9600 = 31249"
  using rx_set_baud_rate_period_skew [of 9600 rx_9600]
  by (simp add: unart_rx_set_baud_rate_def rx_9600_def NSEC_PER_SEC_def Let_def)

subsection \<open>The RX queue stays within its capacity\<close>

lemma unart_rx_setup_idle:
  assumes "unart_rx_setup env p r0 = Inr r1"
  shows "rx_bit_index r1 = -1 \<and> \<not> hrtimer_active (rx_timer r1) \<and>
     rx_fifo r1 = kfifo_alloc UNART_RX_FIFO_SIZE \<and> rx_debug_toggle r1 = 0"
  using assms
  by (auto simp add: unart_rx_setup_def Let_def hrtimer_active_def hrtimer_setup_def
      split: if_splits)

lemma rx_irq_handler_fifo: "rx_fifo (rx (unart_rx_irq_handler p now u)) = rx_fifo (rx u)"
  by (simp add: unart_rx_irq_handler_def unart_rx_debug_toggle_def Let_def)

lemma rx_timer_expire_fifo:
  "rx_fifo (rx (snd (rx_timer_expire p b u))) = rx_fifo (rx u) \<or>
   rx_fifo (rx (snd (rx_timer_expire p b u))) = snd (kfifo_put (rx_fifo (rx u)) (rx_payload (rx u)))"
  by (simp add: rx_timer_expire_def unart_rx_timer_callback_def unart_rx_debug_toggle_def
      Let_def)

lemma kfifo_put_size: "kf_size (snd (kfifo_put f v)) = kf_size f"
  by (simp add: kfifo_put_def)

lemma rx_reachable_fifo_bounded:
  assumes "rx_reachable u0 a f u"
    and "kf_size (rx_fifo (rx u0)) = n" "kfifo_len (rx_fifo (rx u0)) \<le> n"
  shows "kf_size (rx_fifo (rx u)) = n \<and> kfifo_len (rx_fifo (rx u)) \<le> n"
  using assms
proof (induction rule: rx_reachable.induct)
  case rx_reachable_init
  then show ?case by simp
next
  case (rx_reachable_edge a f u p now)
  then show ?case by (simp add: rx_irq_handler_fifo)
next
  case (rx_reachable_tick a f u b p)
  then have *: "kf_size (rx_fifo (rx u)) = n" "kfifo_len (rx_fifo (rx u)) \<le> n"
    by simp_all
  from rx_timer_expire_fifo [of p b u] show ?case
  proof
    assume "rx_fifo (rx (snd (rx_timer_expire p b u))) = rx_fifo (rx u)"
    with * show ?thesis by simp
  next
    assume "rx_fifo (rx (snd (rx_timer_expire p b u))) =
      snd (kfifo_put (rx_fifo (rx u)) (rx_payload (rx u)))"
    with * kfifo_put_bounded [of "rx_fifo (rx u)" "rx_payload (rx u)"] show ?thesis
      by (simp add: kfifo_put_size)
  qed
qed

subsection \<open>Deferred delivery\<close>

text \<open>
  C10. On an RX queue of capacity 32 holding at most that many bytes (as it does in every
  state reached after setup, by \<open>unart_rx_setup_idle\<close> and \<open>rx_reachable_fifo_bounded\<close>),
  one run of the deferred delivery hands the push callback exactly the bytes that were
  queued, oldest first, each once, and leaves the queue empty: its local buffer of 32
  bytes never cuts the batch short.
\<close>

theorem rx_push_work_drains_queue:
  assumes "kf_size (rx_fifo r) = UNART_RX_FIFO_SIZE" "kfifo_len (rx_fifo r) \<le> kf_size (rx_fifo r)"
  shows "fst (unart_rx_push_work r) = kf_data (rx_fifo r) \<and>
     snd (unart_rx_push_work r) = r\<lparr>rx_fifo := (rx_fifo r)\<lparr>kf_data := []\<rparr>\<rparr> \<and>
     kfifo_is_empty (rx_fifo (snd (unart_rx_push_work r)))"
  using assms
  by (simp add: unart_rx_push_work_def kfifo_out_def kfifo_len_def kfifo_is_empty_def Let_def)

theorem rx_push_work_drains_queue_witness:
  "kf_size (rx_fifo (rx unart_rx_backlog)) = UNART_RX_FIFO_SIZE \<and>
   kfifo_len (rx_fifo (rx unart_rx_backlog)) \<le> kf_size (rx_fifo (rx unart_rx_backlog)) \<and>
   fst (unart_rx_push_work (rx unart_rx_backlog)) = replicate 32 0 \<and>
   kf_data (rx_fifo (snd (unart_rx_push_work (rx unart_rx_backlog)))) = []"
  using rx_push_work_drains_queue [of "rx unart_rx_backlog"]
  by (simp add: unart_rx_backlog_def kfifo_len_def UNART_RX_FIFO_SIZE_def)

subsection \<open>When the RX timer is active\<close>

lemma rx_reachable_invariant:
  assumes "rx_idle u0" "rx_reachable u0 a f u"
  shows "(hrtimer_active (rx_timer (rx u)) \<longleftrightarrow> f) \<and>
     (\<not> hrtimer_active (rx_timer (rx u)) \<longrightarrow> rx_bit_index (rx u) = -1) \<and> (f \<longrightarrow> a)"
  using assms(2)
proof (induction rule: rx_reachable.induct)
  case rx_reachable_init
  from assms(1) show ?case
    by (simp add: rx_idle_def)
next
  case (rx_reachable_edge a f u p now)
  then show ?case
    by (auto simp add: unart_rx_irq_handler_def rx_edge_starts_def unart_rx_debug_toggle_def
        hrtimer_start_def hrtimer_active_def Let_def)
next
  case (rx_reachable_tick a f u b p)
  then have f: "f" and a: "a"
    by simp_all
  show ?case
  proof (cases "rx_bit_index (rx u) = -1")
    case True
    with f a show ?thesis
      by (simp add: rx_expire_defs rx_stop_sample_def rx_start_rejected_def)
  next
    case False
    with f a show ?thesis
      by (simp add: rx_expire_defs rx_stop_sample_def rx_start_rejected_def)
  qed
qed

lemma rx_9600_idle: "rx_idle unart_9600"
  by (simp add: rx_idle_def unart_9600_def rx_9600_def hrtimer_active_def hrtimer_setup_def)

lemma rx_9600_after_edge:
  "rx_reachable unart_9600 True True (unart_rx_irq_handler params_default 0 unart_9600)"
proof -
  have "rx_edge_starts unart_9600"
    using rx_9600_idle by (simp add: rx_edge_starts_def rx_idle_def)
  with rx_reachable_edge [OF rx_reachable_init, of unart_9600 params_default 0]
  show ?thesis
    by simp
qed

text \<open>
  C7 as stated fails after an invalid start bit: from the idle device, an edge at time 0
  followed by a start-bit sample of 1 leaves the timer stopped, although a start edge has
  been detected and no stop-bit sample has occurred since.
\<close>

theorem rx_timer_after_bad_start_counterexample:
  "rx_idle unart_9600 \<and>
   rx_reachable unart_9600 True False
     (snd (rx_timer_expire params_default 1 (unart_rx_irq_handler params_default 0 unart_9600))) \<and>
   \<not> hrtimer_active (rx_timer (rx
     (snd (rx_timer_expire params_default 1 (unart_rx_irq_handler params_default 0 unart_9600)))))"
proof -
  define u1 where "u1 = unart_rx_irq_handler params_default 0 unart_9600"
  have r1: "rx_reachable unart_9600 True True u1"
    unfolding u1_def by (rule rx_9600_after_edge)
  have s: "rx_bit_index (rx u1) = -1" "hrtimer_active (rx_timer (rx u1))"
    by (simp_all add: u1_def unart_rx_irq_handler_def unart_9600_def rx_9600_def params_default_def
        hrtimer_active_def hrtimer_start_def hrtimer_setup_def Let_def)
  from s have "\<not> rx_stop_sample u1" "rx_start_rejected 1 u1"
    by (simp_all add: rx_stop_sample_def rx_start_rejected_def)
  with rx_reachable_tick [OF r1 s(2), of 1 params_default]
  have "rx_reachable unart_9600 True False (snd (rx_timer_expire params_default 1 u1))"
    by simp
  moreover have "\<not> hrtimer_active (rx_timer (rx (snd (rx_timer_expire params_default 1 u1))))"
    using s(1) by (simp add: rx_expire_defs)
  ultimately show ?thesis
    using rx_9600_idle by (simp add: u1_def)
qed

text \<open>
  C7, amended. In every state the receiver reaches from an idle state by edge interrupts
  and timer expiries, the RX timer is active if and only if a start edge has been detected
  and since then neither the terminating stop-bit sample (valid or not) has occurred nor
  the start-bit sample been found invalid. In particular, whenever the timer is active a
  start edge has been detected and the stop-bit sample has not yet occurred.
\<close>

theorem rx_timer_active_iff_frame_open:
  assumes "rx_idle u0" "rx_reachable u0 awaiting_stop frame_open u"
  shows "(hrtimer_active (rx_timer (rx u)) \<longleftrightarrow> frame_open) \<and>
     (hrtimer_active (rx_timer (rx u)) \<longrightarrow> awaiting_stop)"
  using rx_reachable_invariant [OF assms] by blast

theorem rx_timer_active_iff_frame_open_witness:
  "rx_idle unart_9600 \<and>
   rx_reachable unart_9600 True True (unart_rx_irq_handler params_default 0 unart_9600) \<and>
   hrtimer_active (rx_timer (rx (unart_rx_irq_handler params_default 0 unart_9600)))"
  using rx_timer_active_iff_frame_open [OF rx_9600_idle rx_9600_after_edge]
    rx_9600_idle rx_9600_after_edge
  by simp

subsection \<open>Diagnostic mode\<close>






end
